theory Spec2Isabelle
  imports Main
begin

section \<open>Machine arithmetic used by the file logger\<close>

text \<open>
  Go's \<open>int64\<close> and \<open>int16\<close> are modelled as \<open>int\<close> with the two's-complement
  wrap-around written out; \<open>float64(x)\<close> for an integer \<open>x\<close> is the integer obtained
  by rounding \<open>x\<close> to a 53-bit significand (round to nearest, ties to even), and
  \<open>math.Mod\<close> on two such integer-valued floats is exact.
\<close>

definition int64 :: "int \<Rightarrow> int" where
  "int64 x = (x + 2 ^ 63) mod 2 ^ 64 - 2 ^ 63"

definition int16 :: "int \<Rightarrow> int" where
  "int16 x = (x + 2 ^ 15) mod 2 ^ 16 - 2 ^ 15"

text \<open>Go's integer division truncates towards zero.\<close>

definition quo :: "int \<Rightarrow> int \<Rightarrow> int" where
  "quo a b = sgn a * sgn b * (\<bar>a\<bar> div \<bar>b\<bar>)"

function bitlen :: "int \<Rightarrow> nat" where
  "bitlen n = (if n \<le> 0 then 0 else Suc (bitlen (n div 2)))"
  by pat_completeness auto
termination
  by (relation "measure nat") auto

declare bitlen.simps [simp del]

definition roundSig53 :: "int \<Rightarrow> int" where
  "roundSig53 n =
     (if bitlen n \<le> 53 then n
      else let e = bitlen n - 53;
               q = n div 2 ^ e;
               r = n mod 2 ^ e;
               half = 2 ^ (e - 1)
           in (if r < half \<or> (r = half \<and> even q) then q else q + 1) * 2 ^ e)"

definition float64 :: "int \<Rightarrow> int" where
  "float64 x = sgn x * roundSig53 \<bar>x\<bar>"

definition mathMod :: "int \<Rightarrow> int \<Rightarrow> int" where
  "mathMod x y = sgn x * (\<bar>x\<bar> mod \<bar>y\<bar>)"

section \<open>Constants of filelogger.go\<close>

definition Kbyte :: int where "Kbyte = 1024"
definition Mbyte :: int where "Mbyte = 1000 * Kbyte"
definition Gbyte :: int where "Gbyte = 1000 * Mbyte"

definition LogMinFileSize :: int where "LogMinFileSize = Mbyte"
definition LogMaxFileSize :: int where "LogMaxFileSize = 500 * Mbyte"

definition logMaxVolNumber :: int where "logMaxVolNumber = 9999"
definition logHighWaterMark :: int where "logHighWaterMark = 2 * Kbyte"

definition logFilenameExtension :: string where "logFilenameExtension = ''log''"
definition logFilenameDailyFormat :: string where "logFilenameDailyFormat = ''2016-01-01''"
definition logFilenameTimeFormat :: string where "logFilenameTimeFormat = ''2016-01-01T23.01.01''"

text \<open>The helper \<open>max\<close> at the end of filelogger.go.\<close>

definition max64 :: "int \<Rightarrow> int \<Rightarrow> int" where
  "max64 x y = (if y > x then y else x)"

text \<open>
  The size computation of \<open>SizeLimitedFile\<close> (the statements between the creation of
  the struct and the assignment to \<open>fileSizeLimit\<close>).
\<close>

definition sizeLimitOf :: "int \<Rightarrow> int" where
  "sizeLimitOf size0 =
     (let size = max64 size0 LogMaxFileSize;
          rem = mathMod (float64 size) (float64 LogMinFileSize)
      in if rem > 0
         then int64 (int64 (quo size LogMinFileSize * LogMinFileSize) + LogMinFileSize)
         else LogMinFileSize)"


section \<open>Policy types\<close>

datatype PolicyType =
  invalidPolicy | PolicyNone | PolicyDaily | PolicyTimeLimit | PolicyFileSize
  | PolicyCustom1 | PolicyCustom2 | PolicyCustom3

definition isNone :: "PolicyType \<Rightarrow> bool" where "isNone pt = (pt = PolicyNone)"
definition IsDaily :: "PolicyType \<Rightarrow> bool" where "IsDaily pt = (pt = PolicyDaily)"
definition IsTimed :: "PolicyType \<Rightarrow> bool" where "IsTimed pt = (pt = PolicyTimeLimit)"
definition IsSizeLimited :: "PolicyType \<Rightarrow> bool" where "IsSizeLimited pt = (pt = PolicyFileSize)"

section \<open>The environment: disk, clock and library calls\<close>

text \<open>
  A byte is a \<open>char\<close>; instants are nanoseconds since Go's zero time and durations are
  nanoseconds. The disk maps a path to the file's bytes and modification time. What the
  operating system and Go's library decide (whether a path can be opened, what
  \<open>filepath.Glob\<close> lists for the current disk, whether a write fails part-way, how an
  instant is printed in RFC 3339, what \<open>time.Date\<close> answers under the rules of a zone)
  is a field of the environment, so that every general statement below holds for any
  behaviour of these.

  \<open>dateMidnight w loc t\<close> is \<open>time.Date(t.Year(), t.Month(), t.Day(), 0, 0, 0, 0, loc)\<close>
  and \<open>dateMinute w loc t\<close> is
  \<open>time.Date(t.Year(), t.Month(), t.Day(), t.Hour(), t.Minute(), 0, 0, loc)\<close>, for an
  instant \<open>t\<close> that \<open>time.Now()\<close> returned, whose fields are read in the local zone.
\<close>

datatype Location = Local | Zone string

type_synonym bytes = string

record fileData =
  content :: bytes
  modTime :: int

record world =
  disk :: "string \<rightharpoonup> fileData"
  clock :: int
  dateMidnight :: "Location \<Rightarrow> int \<Rightarrow> int"
  dateMinute :: "Location \<Rightarrow> int \<Rightarrow> int"
  globFn :: "(string \<rightharpoonup> fileData) \<Rightarrow> string \<Rightarrow> string list option"
  openable :: "string \<Rightarrow> bool"
  writeFault :: "string \<Rightarrow> bytes \<Rightarrow> nat option"
  formatRFC3339 :: "int \<Rightarrow> string"

datatype fault = NilDereference | IndexOutOfRange | LogPanic | Deadlock

datatype goError = ErrOpen | ErrInvalid | ErrClosed | ErrWrite | ErrRecovered

text \<open>
  The \<open>io.WriteCloser\<close> field: the nil interface, a nil \<open>*os.File\<close> (what a failed
  \<open>os.OpenFile\<close> leaves there), an open file, or a closed one.
\<close>

datatype handle = HNil | HInvalid | HOpen string | HClosed string

definition newline :: char where "newline = CHR 0x0A"

definition Second :: int where "Second = 1000000000"
definition Minute :: int where "Minute = 60 * Second"
definition Hour :: int where "Hour = 60 * Minute"

text \<open>\<open>os.Stat\<close>: the size and modification time of a path, or an error.\<close>

definition Stat :: "world \<Rightarrow> string \<Rightarrow> fileData option" where
  "Stat w name = disk w name"

definition Size :: "fileData \<Rightarrow> int" where
  "Size fi = int (length (content fi))"

text \<open>\<open>filepath.Glob\<close>: \<open>None\<close> is an error, \<open>Some []\<close> the nil slice.\<close>

definition Glob :: "world \<Rightarrow> string \<Rightarrow> string list option" where
  "Glob w pattern = globFn w (disk w) pattern"

text \<open>\<open>Time.Round\<close>: to the nearest multiple of \<open>d\<close>, halfway values up.\<close>

definition timeRound :: "int \<Rightarrow> int \<Rightarrow> int" where
  "timeRound t d =
     (if d \<le> 0 then t
      else let r = t mod d in if r + r < d then t - r else t + (d - r))"

text \<open>
  \<open>bytes.Replace(s, old, new, -1)\<close> and \<open>strings.Replace\<close> for a non-empty
  \<open>old\<close>: every non-overlapping occurrence, from the left.
\<close>

function replaceAll :: "string \<Rightarrow> string \<Rightarrow> string \<Rightarrow> string" where
  "replaceAll s old new =
     (if s = [] \<or> old = [] then s
      else if take (length old) s = old then new @ replaceAll (drop (length old) s) old new
      else hd s # replaceAll (tl s) old new)"
  by pat_completeness auto
termination
  by (relation "measure (\<lambda>(s, old, new). length s)") (auto simp: neq_Nil_conv)

declare replaceAll.simps [simp del]

text \<open>
  \<open>(*os.File).Write\<close> on the handle; the bytes go to the end of the file, and a write
  that puts no byte there leaves the file and its modification time as they were.
\<close>

definition appendBytes :: "world \<Rightarrow> string \<Rightarrow> bytes \<Rightarrow> world" where
  "appendBytes w name bs =
     (case disk w name of
        None \<Rightarrow> w
      | Some fd \<Rightarrow>
          if bs = [] then w
          else w\<lparr>disk := (disk w)(name \<mapsto> \<lparr>content = content fd @ bs, modTime = clock w\<rparr>)\<rparr>)"

definition fileWrite :: "world \<Rightarrow> handle \<Rightarrow> bytes \<Rightarrow> fault + (world \<times> nat \<times> goError option)" where
  "fileWrite w h p =
     (case h of
        HNil \<Rightarrow> Inl NilDereference
      | HInvalid \<Rightarrow> Inr (w, 0, Some ErrInvalid)
      | HClosed name \<Rightarrow> Inr (w, 0, Some ErrClosed)
      | HOpen name \<Rightarrow>
          (case writeFault w name p of
             None \<Rightarrow> Inr (appendBytes w name p, length p, None)
           | Some k \<Rightarrow> Inr (appendBytes w name (take k p), min k (length p), Some ErrWrite)))"

definition fileClose :: "handle \<Rightarrow> fault + (handle \<times> goError option)" where
  "fileClose h =
     (case h of
        HNil \<Rightarrow> Inl NilDereference
      | HInvalid \<Rightarrow> Inr (HInvalid, Some ErrInvalid)
      | HClosed name \<Rightarrow> Inr (HClosed name, Some ErrClosed)
      | HOpen name \<Rightarrow> Inr (HClosed name, None))"

section \<open>logtimer.go\<close>

text \<open>
  \<open>lt_timer\<close> is the Go timer: the instant at which the runtime will call
  \<open>doTimerFunc\<close>, or \<open>None\<close> when nothing is pending. The callback is passed to the
  functions that run it.
\<close>

record LogTimer =
  lt_base :: int
  lt_next :: int
  lt_d :: int
  lt_timer :: "int option"

definition calcDurationFromNow :: "world \<Rightarrow> int \<Rightarrow> int" where
  "calcDurationFromNow w t = t - timeRound (clock w) Minute"

text \<open>
  The location argument is \<open>None\<close> for the nil pointer, which the constructors replace
  by the location of \<open>time.Now()\<close>, the local zone.
\<close>

definition NewDailyTimer :: "world \<Rightarrow> Location option \<Rightarrow> LogTimer" where
  "NewDailyTimer w loc0 =
     (let d0 = 24 * Hour;
          t = clock w;
          loc = (case loc0 of None \<Rightarrow> Local | Some l \<Rightarrow> l);
          base = timeRound (dateMidnight w loc t) Minute;
          d = calcDurationFromNow w (base + d0)
      in \<lparr>lt_base = base, lt_next = base + d0, lt_d = d0, lt_timer = Some (clock w + d)\<rparr>)"

definition NewTimer :: "world \<Rightarrow> int \<Rightarrow> Location option \<Rightarrow> LogTimer" where
  "NewTimer w dur l0 =
     (let n = clock w;
          l = (case l0 of None \<Rightarrow> Local | Some l' \<Rightarrow> l');
          base = dateMinute w l n
      in \<lparr>lt_base = base, lt_next = base + dur, lt_d = dur, lt_timer = Some (clock w + dur)\<rparr>)"

text \<open>\<open>time.LoadLocation("Local")\<close> is the local zone.\<close>

definition NewLocalTimer :: "world \<Rightarrow> int \<Rightarrow> LogTimer" where
  "NewLocalTimer w dur = NewTimer w dur (Some Local)"

definition Stop :: "LogTimer \<Rightarrow> LogTimer" where
  "Stop lt = lt\<lparr>lt_timer := None\<rparr>"

definition Reset :: "world \<Rightarrow> LogTimer \<Rightarrow> LogTimer" where
  "Reset w lt = (Stop lt)\<lparr>lt_timer := Some (clock w + lt_d lt)\<rparr>"

definition Duration :: "LogTimer \<Rightarrow> int" where
  "Duration lt = lt_d lt"

definition TriggerTime :: "LogTimer \<Rightarrow> int" where
  "TriggerTime lt = lt_next lt"

text \<open>
  \<open>doTimerFunc\<close>: the callback runs, then the base becomes the trigger time; a panic
  of the callback is recovered and the assignment is skipped.
\<close>

definition doTimerFunc :: "(LogTimer \<Rightarrow> fault + LogTimer) \<Rightarrow> LogTimer \<Rightarrow> LogTimer" where
  "doTimerFunc cb lt =
     (case cb lt of
        Inl x \<Rightarrow> lt
      | Inr lt' \<Rightarrow> lt'\<lparr>lt_base := lt_next lt'\<rparr>)"

text \<open>The runtime fires a pending timer whose instant has come.\<close>

definition fire :: "world \<Rightarrow> (LogTimer \<Rightarrow> fault + LogTimer) \<Rightarrow> LogTimer \<Rightarrow> LogTimer option" where
  "fire w cb lt =
     (case lt_timer lt of
        None \<Rightarrow> None
      | Some t \<Rightarrow> if t \<le> clock w then Some (doTimerFunc cb (lt\<lparr>lt_timer := None\<rparr>)) else None)"


section \<open>filelogger.go\<close>

text \<open>
  The struct stores three functions chosen by the constructor; here each is a tag, and
  \<open>callFilenameGen\<close>, \<open>callRotateCheck\<close> and \<open>callRotate\<close> run the tagged method.
  The mutex is not modelled: the operations run one at a time, except where a second
  \<open>Lock\<close> by the holder blocks for ever.
\<close>

datatype filenameGenFn = GetStaticFilename | GetDailyFilename | GetTimedFilename
datatype rotateCheckFn = ReturnFalse | SizeRotateCheck | TimedRotateCheck
datatype rotateFn = ReturnTrue | TimedRotate

record LogFile =
  prefix :: string
  currentFile :: string
  policy :: PolicyType
  volNo :: int
  fileSizeLimit :: int
  fileh :: handle
  cycle :: int
  ltimer :: "LogTimer option"
  filenameGen :: filenameGenFn
  rotateCheck :: rotateCheckFn
  rotateFun :: rotateFn

definition genFilename :: "string \<Rightarrow> string list \<Rightarrow> string" where
  "genFilename pre parts = foldl (\<lambda>fmtStr s. fmtStr @ s @ ''.'') (pre @ ''.'') parts @ logFilenameExtension"

subsection \<open>Volume numbers\<close>

definition isDigit :: "char \<Rightarrow> bool" where
  "isDigit c = (c \<in> set ''0123456789'')"

text \<open>
  The regular expression \<open>\.([0-9]+)\.log\<close>: \<open>matchVolAt\<close> matches it at the head of
  the string and gives the group, \<open>findVolToken\<close> is the leftmost match, which is
  \<open>list[0][1]\<close> of \<open>FindAllStringSubmatch\<close>; \<open>None\<close> when the list is empty.
\<close>

definition matchVolAt :: "string \<Rightarrow> string option" where
  "matchVolAt s =
     (case s of
        [] \<Rightarrow> None
      | c # cs \<Rightarrow>
          if c = CHR ''.'' \<and> takeWhile isDigit cs \<noteq> [] \<and> take 4 (dropWhile isDigit cs) = ''.log''
          then Some (takeWhile isDigit cs) else None)"

fun findVolToken :: "string \<Rightarrow> string option" where
  "findVolToken [] = None"
| "findVolToken (c # cs) =
     (case matchVolAt (c # cs) of
        Some tok \<Rightarrow> Some tok
      | None \<Rightarrow> findVolToken cs)"

definition digitVal :: "char \<Rightarrow> int" where
  "digitVal c = int (of_char c) - 48"

definition decimalVal :: "string \<Rightarrow> int" where
  "decimalVal ds = foldl (\<lambda>acc c. 10 * acc + digitVal c) 0 ds"

text \<open>
  \<open>strconv.ParseInt(s, 10, 16)\<close> on a non-empty digit string: the value, or the
  largest 16-bit value with a range error, which the caller drops.
\<close>

definition parseInt16 :: "string \<Rightarrow> int" where
  "parseInt16 ds = (if decimalVal ds > 32767 then 32767 else decimalVal ds)"

text \<open>
  The loop of \<open>calcNextVolumeNo\<close> over the matches; calling \<open>ModTime\<close> on the nil
  \<open>FileInfo\<close> of a failed \<open>os.Stat\<close> panics.
\<close>

fun scanMatches :: "world \<Rightarrow> string list \<Rightarrow> fileData option \<Rightarrow> string \<Rightarrow> fault + string" where
  "scanMatches w [] oldestFi oldestFile = Inr oldestFile"
| "scanMatches w (f # fs) oldestFi oldestFile =
     (case Stat w f of
        None \<Rightarrow> Inl NilDereference
      | Some fi \<Rightarrow>
          (case oldestFi of
             None \<Rightarrow> Inl NilDereference
           | Some ofi \<Rightarrow>
               if modTime fi > modTime ofi then scanMatches w fs (Some fi) f
               else scanMatches w fs oldestFi oldestFile))"

definition calcNextVolumeNo :: "world \<Rightarrow> string \<Rightarrow> fault + int" where
  "calcNextVolumeNo w pre =
     (case Glob w (genFilename pre [''*'']) of
        None \<Rightarrow> Inr 1
      | Some [] \<Rightarrow> Inr 1
      | Some (m # ms) \<Rightarrow>
          (case scanMatches w (m # ms) (Stat w m) m of
             Inl x \<Rightarrow> Inl x
           | Inr oldestFile \<Rightarrow>
               (case findVolToken oldestFile of
                  None \<Rightarrow> Inl IndexOutOfRange
                | Some tok \<Rightarrow>
                    let n = parseInt16 tok;
                        volNo = int16 (int16 (mathMod (float64 n) (float64 logMaxVolNumber)) + 1)
                    in if volNo = 0 then Inr 1 else Inr volNo)))"

text \<open>\<open>fmt.Sprintf("%04.4d", v)\<close>: at least four digits, the sign in front.\<close>

function decimalDigits :: "int \<Rightarrow> string" where
  "decimalDigits n =
     (if n < 10 then [char_of (48 + n)]
      else decimalDigits (n div 10) @ [char_of (48 + n mod 10)])"
  by pat_completeness auto
termination
  by (relation "measure nat") auto

declare decimalDigits.simps [simp del]

definition sprintfVolume :: "int \<Rightarrow> string" where
  "sprintfVolume v =
     (let ds = decimalDigits \<bar>v\<bar>;
          padded = replicate (4 - length ds) CHR ''0'' @ ds
      in if v < 0 then CHR ''-'' # padded else padded)"

definition getStaticFilename :: "world \<Rightarrow> LogFile \<Rightarrow> fault + (LogFile \<times> string)" where
  "getStaticFilename w lf =
     (case (if volNo lf = 0 then Inr 1 else calcNextVolumeNo w (prefix lf)) of
        Inl x \<Rightarrow> Inl x
      | Inr vn \<Rightarrow>
          let lf' = lf\<lparr>volNo := vn\<rparr>;
              v = volNo lf'
          in Inr (lf', genFilename (prefix lf') [sprintfVolume v]))"

text \<open>Slicing a string beyond its length panics.\<close>

definition slicePrefix :: "string \<Rightarrow> nat \<Rightarrow> fault + string" where
  "slicePrefix s n = (if n \<le> length s then Inr (take n s) else Inl IndexOutOfRange)"

definition getDailyFilename :: "world \<Rightarrow> LogFile \<Rightarrow> fault + (LogFile \<times> string)" where
  "getDailyFilename w lf =
     (case slicePrefix (formatRFC3339 w (clock w)) (length logFilenameDailyFormat) of
        Inl x \<Rightarrow> Inl x
      | Inr s \<Rightarrow> Inr (lf, genFilename (prefix lf) [s]))"

definition getTimedFilename :: "world \<Rightarrow> LogFile \<Rightarrow> fault + (LogFile \<times> string)" where
  "getTimedFilename w lf =
     (case slicePrefix (formatRFC3339 w (clock w)) (length logFilenameTimeFormat) of
        Inl x \<Rightarrow> Inl x
      | Inr s \<Rightarrow> Inr (lf, genFilename (prefix lf) [replaceAll s '':'' ''_'']))"

definition callFilenameGen :: "world \<Rightarrow> LogFile \<Rightarrow> fault + (LogFile \<times> string)" where
  "callFilenameGen w lf =
     (case filenameGen lf of
        GetStaticFilename \<Rightarrow> getStaticFilename w lf
      | GetDailyFilename \<Rightarrow> getDailyFilename w lf
      | GetTimedFilename \<Rightarrow> getTimedFilename w lf)"


subsection \<open>Opening, closing and rotating\<close>

text \<open>
  \<open>os.OpenFile\<close> with \<open>O_CREATE | O_APPEND\<close>: an absent file is created empty, an
  existing one is left as it is. The flags name no access mode, so whether a later write
  to the handle is accepted is the operating system's answer (\<open>writeFault\<close>).
\<close>

definition osOpenFile :: "world \<Rightarrow> string \<Rightarrow> world \<times> handle \<times> goError option" where
  "osOpenFile w name =
     (if openable w name
      then ((case disk w name of
               None \<Rightarrow> w\<lparr>disk := (disk w)(name \<mapsto> \<lparr>content = [], modTime = clock w\<rparr>)\<rparr>
             | Some fd \<Rightarrow> w), HOpen name, None)
      else (w, HInvalid, Some ErrOpen))"

definition openFile :: "world \<Rightarrow> LogFile \<Rightarrow> string \<Rightarrow> world \<times> LogFile \<times> goError option" where
  "openFile w lf filename =
     (case osOpenFile w filename of
        (w', h, err) \<Rightarrow>
          (case err of
             Some e \<Rightarrow> (w', lf\<lparr>fileh := h\<rparr>, Some e)
           | None \<Rightarrow> (w', lf\<lparr>fileh := h, currentFile := filename\<rparr>, None)))"

definition closeFile :: "LogFile \<Rightarrow> fault + (LogFile \<times> goError option)" where
  "closeFile lf =
     (if fileh lf = HNil then Inl LogPanic
      else case fileClose (fileh lf) of
             Inl x \<Rightarrow> Inl x
           | Inr (h, err) \<Rightarrow> Inr (lf\<lparr>currentFile := [], fileh := HNil\<rparr>, err))"

definition timedRotateCheck :: "world \<Rightarrow> LogFile \<Rightarrow> bool" where
  "timedRotateCheck w lf =
     (case ltimer lf of
        None \<Rightarrow> False
      | Some lt \<Rightarrow> timeRound (clock w) Minute > TriggerTime lt)"

definition sizeRotateCheck :: "world \<Rightarrow> LogFile \<Rightarrow> fault + bool" where
  "sizeRotateCheck w lf =
     (if policy lf \<noteq> PolicyFileSize then Inr False
      else case Stat w (currentFile lf) of
             None \<Rightarrow> Inl LogPanic
           | Some fi \<Rightarrow> Inr (int64 (Size fi + logHighWaterMark) > fileSizeLimit lf))"

definition callRotateCheck :: "world \<Rightarrow> LogFile \<Rightarrow> fault + bool" where
  "callRotateCheck w lf =
     (case rotateCheck lf of
        ReturnFalse \<Rightarrow> Inr False
      | SizeRotateCheck \<Rightarrow> sizeRotateCheck w lf
      | TimedRotateCheck \<Rightarrow> Inr (timedRotateCheck w lf))"

text \<open>
  \<open>LogRotateCheck\<close> recovers a panic of the check; its result is unnamed, so it is the
  zero value then.
\<close>

definition LogRotateCheck :: "world \<Rightarrow> LogFile \<Rightarrow> bool" where
  "LogRotateCheck w lf =
     (case callRotateCheck w lf of
        Inl x \<Rightarrow> False
      | Inr b \<Rightarrow> b)"

definition timedRotate :: "world \<Rightarrow> LogFile \<Rightarrow> fault + (world \<times> LogFile \<times> bool)" where
  "timedRotate w lf =
     (case closeFile lf of
        Inl x \<Rightarrow> Inl x
      | Inr (lf1, cerr) \<Rightarrow>
          (case callFilenameGen w lf1 of
             Inl x \<Rightarrow> Inl x
           | Inr (lf2, name) \<Rightarrow>
               (case openFile w lf2 name of
                  (w', lf3, oerr) \<Rightarrow>
                    Inr (w', lf3\<lparr>ltimer := map_option (Reset w') (ltimer lf3)\<rparr>, True))))"

definition callRotate :: "world \<Rightarrow> LogFile \<Rightarrow> fault + (world \<times> LogFile \<times> bool)" where
  "callRotate w lf =
     (case rotateFun lf of
        ReturnTrue \<Rightarrow> Inr (w, lf, True)
      | TimedRotate \<Rightarrow> timedRotate w lf)"

definition LogRotate :: "world \<Rightarrow> LogFile \<Rightarrow> fault + (world \<times> LogFile \<times> bool)" where
  "LogRotate w lf = callRotate w lf"

subsection \<open>Constructors\<close>

text \<open>
  A constructor gives a fault, or an error with no file, or the new environment and the
  file. \<open>DailyFile\<close> and \<open>TimedFile\<close> call \<open>Close\<close> when the open fails, while they
  hold the lock that \<open>Close\<close> takes first.
\<close>

definition emptyLogFile :: LogFile where
  "emptyLogFile =
     \<lparr>prefix = [], currentFile = [], policy = invalidPolicy, volNo = 0, fileSizeLimit = 0,
      fileh = HNil, cycle = 0, ltimer = None, filenameGen = GetStaticFilename,
      rotateCheck = ReturnFalse, rotateFun = ReturnTrue\<rparr>"

definition File :: "world \<Rightarrow> string \<Rightarrow> fault + (goError + world \<times> LogFile)" where
  "File w name =
     (let lf = emptyLogFile\<lparr>prefix := name, policy := PolicyNone, rotateCheck := ReturnFalse,
                 rotateFun := ReturnTrue, filenameGen := GetStaticFilename\<rparr>
      in case callFilenameGen w lf of
           Inl x \<Rightarrow> Inl x
         | Inr (lf1, fname) \<Rightarrow>
             (case openFile w lf1 fname of
                (w', lf2, Some e) \<Rightarrow> Inr (Inl e)
              | (w', lf2, None) \<Rightarrow> Inr (Inr (w', lf2))))"

definition SizeLimitedFile :: "world \<Rightarrow> string \<Rightarrow> int \<Rightarrow> fault + (goError + world \<times> LogFile)" where
  "SizeLimitedFile w name size0 =
     (let lf = emptyLogFile\<lparr>prefix := name, policy := PolicyFileSize, filenameGen := GetStaticFilename,
                 rotateCheck := SizeRotateCheck, rotateFun := TimedRotate\<rparr>;
          lf0 = lf\<lparr>fileSizeLimit := sizeLimitOf size0\<rparr>
      in case callFilenameGen w lf0 of
           Inl x \<Rightarrow> Inl x
         | Inr (lf1, fname) \<Rightarrow>
             (case openFile w lf1 fname of
                (w', lf2, Some e) \<Rightarrow> Inr (Inl e)
              | (w', lf2, None) \<Rightarrow> Inr (Inr (w', lf2))))"

definition DailyFile :: "world \<Rightarrow> string \<Rightarrow> fault + (goError + world \<times> LogFile)" where
  "DailyFile w name =
     (let lf = emptyLogFile\<lparr>prefix := name, policy := PolicyDaily, cycle := 24 * Hour,
                 filenameGen := GetDailyFilename, rotateCheck := TimedRotateCheck,
                 rotateFun := TimedRotate\<rparr>
      in case callFilenameGen w lf of
           Inl x \<Rightarrow> Inl x
         | Inr (lf1, fname) \<Rightarrow>
             (case openFile w lf1 fname of
                (w', lf2, Some e) \<Rightarrow> Inl Deadlock
              | (w', lf2, None) \<Rightarrow> Inr (Inr (w', lf2\<lparr>ltimer := Some (NewDailyTimer w' (Some Local))\<rparr>))))"

definition TimedFile :: "world \<Rightarrow> string \<Rightarrow> int \<Rightarrow> fault + (goError + world \<times> LogFile)" where
  "TimedFile w name rt =
     (let lf = emptyLogFile\<lparr>prefix := name, policy := PolicyTimeLimit, cycle := rt,
                 filenameGen := GetTimedFilename, rotateCheck := TimedRotateCheck,
                 rotateFun := TimedRotate\<rparr>
      in case callFilenameGen w lf of
           Inl x \<Rightarrow> Inl x
         | Inr (lf1, fname) \<Rightarrow>
             (case openFile w lf1 fname of
                (w', lf2, Some e) \<Rightarrow> Inl Deadlock
              | (w', lf2, None) \<Rightarrow> Inr (Inr (w', lf2\<lparr>ltimer := Some (NewLocalTimer w' (cycle lf2))\<rparr>))))"

subsection \<open>Write and Close\<close>

definition LogPolicy :: "LogFile \<Rightarrow> PolicyType" where
  "LogPolicy lf = policy lf"

definition LogFilename :: "LogFile \<Rightarrow> string" where
  "LogFilename lf = currentFile lf"

definition writeEntry :: "world \<Rightarrow> LogFile \<Rightarrow> bytes \<Rightarrow> fault + (world \<times> nat \<times> goError option)" where
  "writeEntry w lf p =
     (case fileWrite w (fileh lf) p of
        Inl x \<Rightarrow> Inl x
      | Inr (w', n, err) \<Rightarrow>
          (case err of
             Some e \<Rightarrow> Inr (w', 0, Some e)
           | None \<Rightarrow> Inr (w', n, None)))"

text \<open>The payload as \<open>Write\<close> hands it to \<open>writeEntry\<close>.\<close>

definition normalizePayload :: "bytes \<Rightarrow> bytes" where
  "normalizePayload p = replaceAll p [newline] ''; '' @ [newline]"

text \<open>
  \<open>Write\<close>: a panic of the write is recovered into \<open>(0, error)\<close>; otherwise a
  file of the size policy is checked and rotated, and a panic there leaves \<open>Write\<close>.
\<close>

definition Write :: "world \<Rightarrow> LogFile \<Rightarrow> bytes \<Rightarrow> fault + (world \<times> LogFile \<times> nat \<times> goError option)" where
  "Write w lf p =
     (case writeEntry w lf (normalizePayload p) of
        Inl x \<Rightarrow> Inr (w, lf, 0, Some ErrRecovered)
      | Inr (w', n, err) \<Rightarrow>
          if policy lf = PolicyFileSize \<and> LogRotateCheck w' lf
          then (case LogRotate w' lf of
                  Inl x \<Rightarrow> Inl x
                | Inr (w'', lf', b) \<Rightarrow> Inr (w'', lf', n, err))
          else Inr (w', lf, n, err))"

definition Close :: "LogFile \<Rightarrow> LogFile \<times> goError option" where
  "Close lf =
     (let lf1 = lf\<lparr>ltimer := map_option Stop (ltimer lf)\<rparr>
      in case fileClose (fileh lf1) of
           Inl x \<Rightarrow> (lf1, None)
         | Inr (h, err) \<Rightarrow> (lf1\<lparr>fileh := h\<rparr>, err))"


section \<open>Reading a constructor's result\<close>

definition openedFile :: "fault + (goError + world \<times> LogFile) \<Rightarrow> LogFile option" where
  "openedFile r = (case r of Inr (Inr (w, lf)) \<Rightarrow> Some lf | _ \<Rightarrow> None)"

definition openedWorld :: "fault + (goError + world \<times> LogFile) \<Rightarrow> world option" where
  "openedWorld r = (case r of Inr (Inr (w, lf)) \<Rightarrow> Some w | _ \<Rightarrow> None)"

definition fileTimer :: "fault + (goError + world \<times> LogFile) \<Rightarrow> LogTimer option" where
  "fileTimer r = Option.bind (openedFile r) ltimer"

text \<open>
  The callback that \<open>DailyFile\<close> and \<open>TimedFile\<close> register, \<open>lf.LogRotate()\<close>, as it
  acts on the timer, which is a field of the file it rotates.
\<close>

definition rotationCallback :: "world \<Rightarrow> LogFile \<Rightarrow> LogTimer \<Rightarrow> fault + LogTimer" where
  "rotationCallback w lf lt =
     (case LogRotate w (lf\<lparr>ltimer := Some lt\<rparr>) of
        Inl x \<Rightarrow> Inl x
      | Inr (w', lf', b) \<Rightarrow> (case ltimer lf' of None \<Rightarrow> Inr lt | Some lt' \<Rightarrow> Inr lt'))"

section \<open>Example environments\<close>

text \<open>
  A directory that holds volumes of the prefix \<open>p\<close> only; the listing is in name order.
  The local zone, and any zone asked for, is UTC.
  Every path can be opened, no write fails, and the clock is within the first hour after
  the zero time when a name is made from it.
\<close>

definition exGlob :: "(string \<rightharpoonup> fileData) \<Rightarrow> string \<Rightarrow> string list option" where
  "exGlob d pattern =
     (if pattern = ''p.*.log''
      then Some (filter (\<lambda>n. d n \<noteq> None) [''p.0001.log'', ''p.0002.log''])
      else Some [])"

definition twoDigits :: "int \<Rightarrow> string" where
  "twoDigits n = [char_of (48 + n div 10), char_of (48 + n mod 10)]"

definition exFormat :: "int \<Rightarrow> string" where
  "exFormat t =
     ''0001-01-01T00:'' @ twoDigits (t div Minute mod 60) @ '':'' @ twoDigits (t div Second mod 60) @ ''Z''"

definition exWorld :: "(string \<rightharpoonup> fileData) \<Rightarrow> int \<Rightarrow> world" where
  "exWorld d t =
     \<lparr>disk = d, clock = t,
      dateMidnight = (\<lambda>loc n. n - n mod (24 * Hour)), dateMinute = (\<lambda>loc n. n - n mod Minute),
      globFn = exGlob, openable = (\<lambda>n. True),
      writeFault = (\<lambda>n p. None), formatRFC3339 = exFormat\<rparr>"

definition exDiskOne :: "string \<rightharpoonup> fileData" where
  "exDiskOne = [''p.0001.log'' \<mapsto> \<lparr>content = [], modTime = 10\<rparr>]"

definition exDiskTwo :: "string \<rightharpoonup> fileData" where
  "exDiskTwo = [''p.0001.log'' \<mapsto> \<lparr>content = [], modTime = 10\<rparr>,
                ''p.0002.log'' \<mapsto> \<lparr>content = [], modTime = 20\<rparr>]"

definition exStaticFile :: LogFile where
  "exStaticFile =
     \<lparr>prefix = ''p'', currentFile = ''p.0001.log'', policy = PolicyNone, volNo = 1,
      fileSizeLimit = 0, fileh = HOpen ''p.0001.log'', cycle = 0, ltimer = None,
      filenameGen = GetStaticFilename, rotateCheck = ReturnFalse, rotateFun = ReturnTrue\<rparr>"

definition exSizeFile :: LogFile where
  "exSizeFile =
     \<lparr>prefix = ''p'', currentFile = ''p.0001.log'', policy = PolicyFileSize, volNo = 1,
      fileSizeLimit = 1024000, fileh = HOpen ''p.0001.log'', cycle = 0, ltimer = None,
      filenameGen = GetStaticFilename, rotateCheck = SizeRotateCheck, rotateFun = TimedRotate\<rparr>"

definition exDiskNone :: "string \<rightharpoonup> fileData" where
  "exDiskNone = Map.empty"

definition exDiskFull :: "string \<rightharpoonup> fileData" where
  "exDiskFull = [''p.0001.log'' \<mapsto> \<lparr>content = replicate 1022000 (CHR ''x''), modTime = 10\<rparr>]"

definition exDiskTimed :: "string \<rightharpoonup> fileData" where
  "exDiskTimed = [''p.0001-01-01T00_00_30.log'' \<mapsto> \<lparr>content = [], modTime = 30 * Second\<rparr>]"

definition exDailyFile :: LogFile where
  "exDailyFile =
     \<lparr>prefix = ''p'', currentFile = ''p.0001-01-01.log'', policy = PolicyDaily, volNo = 0,
      fileSizeLimit = 0, fileh = HOpen ''p.0001-01-01.log'', cycle = 24 * Hour,
      ltimer = Some \<lparr>lt_base = 0, lt_next = 24 * Hour, lt_d = 24 * Hour, lt_timer = Some (24 * Hour)\<rparr>,
      filenameGen = GetDailyFilename, rotateCheck = TimedRotateCheck, rotateFun = TimedRotate\<rparr>"

definition exTimedFile :: LogFile where
  "exTimedFile =
     \<lparr>prefix = ''p'', currentFile = ''p.0001-01-01T00_00_30.log'', policy = PolicyTimeLimit, volNo = 0,
      fileSizeLimit = 0, fileh = HOpen ''p.0001-01-01T00_00_30.log'', cycle = 5 * Minute,
      ltimer = Some \<lparr>lt_base = 0, lt_next = 5 * Minute, lt_d = 5 * Minute,
                      lt_timer = Some (30 * Second + 5 * Minute)\<rparr>,
      filenameGen = GetTimedFilename, rotateCheck = TimedRotateCheck, rotateFun = TimedRotate\<rparr>"

section \<open>Properties of Write\<close>

lemma replaceAll_single:
  "replaceAll p [c] new = concat (map (\<lambda>b. if b = c then new else [b]) p)"
proof (induction p)
  case Nil
  show ?case by (simp add: replaceAll.simps)
next
  case (Cons a p)
  then show ?case by (subst replaceAll.simps) simp
qed

lemma normalizePayload_eq:
  "normalizePayload p = concat (map (\<lambda>b. if b = newline then ''; '' else [b]) p) @ [newline]"
  by (simp add: normalizePayload_def replaceAll_single)


lemma length_replaced:
  "length (concat (map (\<lambda>b. if b = newline then ''; '' else [b]) p)) =
     length p + length (filter (\<lambda>b. b = newline) p)"
  by (induction p) auto





lemma writeEntry_ok:
  "fileh lf = HOpen name \<Longrightarrow> writeFault w name q = None \<Longrightarrow>
   writeEntry w lf q = Inr (appendBytes w name q, length q, None)"
  by (simp add: writeEntry_def fileWrite_def)




lemma Write_cases:
  assumes h: "fileh lf = HOpen (currentFile lf)"
      and ok: "writeFault w (currentFile lf) (normalizePayload p) = None"
  shows "Write w lf p =
     (let w1 = appendBytes w (currentFile lf) (normalizePayload p) in
      if policy lf = PolicyFileSize \<and> LogRotateCheck w1 lf
      then (case LogRotate w1 lf of
              Inl x \<Rightarrow> Inl x
            | Inr (w2, lf', b) \<Rightarrow> Inr (w2, lf', length (normalizePayload p), None))
      else Inr (w1, lf, length (normalizePayload p), None))"
  by (simp add: Write_def writeEntry_ok[OF h ok] Let_def)

lemma Write_success_count:
  assumes "Write w lf p = Inr (w', lf', n, None)"
  shows "n = length (normalizePayload p)"
proof -
  from assms obtain w1 where we: "writeEntry w lf (normalizePayload p) = Inr (w1, n, None)"
    by (auto simp: Write_def split: sum.splits if_splits)
  then show ?thesis
    by (auto simp: writeEntry_def fileWrite_def split: sum.splits handle.splits option.splits)
qed



text \<open>
  C10. A \<open>Write\<close> that returns no error returns the length of the record it appended,
  which is the length of the input plus one for each newline byte in it plus one for
  the final newline: always more than the length of the input.
\<close>

theorem Write_returns_record_length:
  assumes "Write w lf p = Inr (w', lf', n, None)"
  shows "n = length (normalizePayload p)
       \<and> normalizePayload p = concat (map (\<lambda>b. if b = newline then ''; '' else [b]) p) @ [newline]
       \<and> n = length p + length (filter (\<lambda>b. b = newline) p) + 1
       \<and> n > length p"
proof -
  have "n = length (normalizePayload p)"
    by (rule Write_success_count[OF assms])
  moreover have "length (normalizePayload p) = length p + length (filter (\<lambda>b. b = newline) p) + 1"
    by (simp add: normalizePayload_eq length_replaced)
  ultimately show ?thesis
    using normalizePayload_eq[of p] by simp
qed

theorem Write_returns_record_length_witness:
  "Write (exWorld exDiskOne 100) exStaticFile [CHR ''a'', newline, CHR ''b'']
     = Inr (appendBytes (exWorld exDiskOne 100) ''p.0001.log'' [CHR ''a'', CHR '';'', CHR '' '', CHR ''b'', newline],
            exStaticFile, 5, None)
   \<and> (5::nat) = length [CHR ''a'', newline, CHR ''b''] + length (filter (\<lambda>b. b = newline) [CHR ''a'', newline, CHR ''b'']) + 1"
proof -
  have n: "normalizePayload [CHR ''a'', newline, CHR ''b''] = [CHR ''a'', CHR '';'', CHR '' '', CHR ''b'', newline]"
    by (simp add: normalizePayload_eq newline_def)
  have h: "fileh exStaticFile = HOpen (currentFile exStaticFile)"
    by (simp add: exStaticFile_def)
  have ok: "writeFault (exWorld exDiskOne 100) (currentFile exStaticFile)
        (normalizePayload [CHR ''a'', newline, CHR ''b'']) = None"
    by (simp add: exWorld_def)
  have w: "Write (exWorld exDiskOne 100) exStaticFile [CHR ''a'', newline, CHR ''b'']
     = Inr (appendBytes (exWorld exDiskOne 100) ''p.0001.log'' [CHR ''a'', CHR '';'', CHR '' '', CHR ''b'', newline],
            exStaticFile, 5, None)"
    using Write_cases[OF h ok] by (simp add: n exStaticFile_def)
  from Write_returns_record_length[OF w] w show ?thesis by simp
qed


section \<open>Properties of the volume number\<close>

lemma bitlen_le: "n < 2 ^ k \<Longrightarrow> bitlen n \<le> k"
proof (induction k arbitrary: n)
  case 0
  then show ?case by (subst bitlen.simps) simp
next
  case (Suc k)
  show ?case
  proof (cases "n \<le> 0")
    case True
    then show ?thesis by (subst bitlen.simps) simp
  next
    case False
    from Suc.prems have "n div 2 < 2 ^ k" by simp
    from Suc.IH[OF this] False show ?thesis by (subst bitlen.simps) simp
  qed
qed

lemma float64_small: "0 \<le> n \<Longrightarrow> n < 2 ^ 53 \<Longrightarrow> float64 n = n"
  using bitlen_le[of n 53] by (simp add: float64_def roundSig53_def sgn_if)

lemma volume_arith:
  assumes "0 \<le> n" "n \<le> 32767"
  shows "int16 (int16 (mathMod (float64 n) (float64 logMaxVolNumber)) + 1) = n mod 9999 + 1"
proof -
  have f1: "float64 n = n" using assms by (intro float64_small) auto
  have f2: "float64 logMaxVolNumber = 9999"
    by (simp add: logMaxVolNumber_def float64_small)
  have m: "mathMod n 9999 = n mod 9999" using assms by (simp add: mathMod_def sgn_if)
  have r: "0 \<le> n mod 9999" "n mod 9999 < 9999" by simp_all
  have i1: "int16 (n mod 9999) = n mod 9999" using r by (simp add: int16_def)
  have i2: "int16 (n mod 9999 + 1) = n mod 9999 + 1" using r by (simp add: int16_def)
  show ?thesis by (simp add: f1 f2 m i1 i2)
qed

lemma digitVal_nonneg: "isDigit c \<Longrightarrow> 0 \<le> digitVal c"
  by (auto simp: isDigit_def digitVal_def)

lemma foldl_digits_nonneg:
  "0 \<le> a \<Longrightarrow> \<forall>c \<in> set ds. isDigit c \<Longrightarrow> 0 \<le> foldl (\<lambda>acc c. 10 * acc + digitVal c) a ds"
proof (induction ds arbitrary: a)
  case Nil
  then show ?case by simp
next
  case (Cons d ds)
  have "0 \<le> 10 * a + digitVal d" using Cons.prems digitVal_nonneg[of d] by simp
  from Cons.IH[OF this] Cons.prems show ?case by simp
qed

lemma matchVolAt_digits: "matchVolAt s = Some tok \<Longrightarrow> \<forall>c \<in> set tok. isDigit c"
  by (auto simp: matchVolAt_def split: list.splits if_splits dest: set_takeWhileD)

lemma findVolToken_digits: "findVolToken s = Some tok \<Longrightarrow> \<forall>c \<in> set tok. isDigit c"
  by (induction s) (auto split: option.splits dest: matchVolAt_digits)

lemma parseInt16_range:
  "findVolToken s = Some tok \<Longrightarrow> 0 \<le> parseInt16 tok \<and> parseInt16 tok \<le> 32767"
  using foldl_digits_nonneg[of 0 tok] findVolToken_digits[of s tok]
  by (auto simp: parseInt16_def decimalVal_def)

lemma scanMatches_newest:
  assumes "\<forall>f \<in> set fs. Stat w f \<noteq> None" "Stat w cur \<noteq> None"
  shows "\<exists>r. scanMatches w fs (Stat w cur) cur = Inr r \<and> r \<in> set (cur # fs) \<and> Stat w r \<noteq> None
           \<and> modTime (the (Stat w cur)) \<le> modTime (the (Stat w r))
           \<and> (\<forall>g \<in> set fs. modTime (the (Stat w g)) \<le> modTime (the (Stat w r)))"
  using assms
proof (induction fs arbitrary: cur)
  case Nil
  then show ?case by simp
next
  case (Cons f fs)
  from Cons.prems obtain fi ofi where fi: "Stat w f = Some fi" and ofi: "Stat w cur = Some ofi" by auto
  have rest: "\<forall>f \<in> set fs. Stat w f \<noteq> None" using Cons.prems by simp
  show ?case
  proof (cases "modTime fi > modTime ofi")
    case True
    from Cons.IH[OF rest, of f] fi obtain r where
      r: "scanMatches w fs (Some fi) f = Inr r" "r \<in> set (f # fs)" "Stat w r \<noteq> None"
         "modTime fi \<le> modTime (the (Stat w r))"
         "\<forall>g \<in> set fs. modTime (the (Stat w g)) \<le> modTime (the (Stat w r))"
      by auto
    with True fi ofi show ?thesis by auto
  next
    case False
    from Cons.IH[OF rest, of cur] ofi obtain r where
      r: "scanMatches w fs (Some ofi) cur = Inr r" "r \<in> set (cur # fs)" "Stat w r \<noteq> None"
         "modTime ofi \<le> modTime (the (Stat w r))"
         "\<forall>g \<in> set fs. modTime (the (Stat w g)) \<le> modTime (the (Stat w r))"
      by auto
    with False fi ofi show ?thesis by auto
  qed
qed

lemma calcNextVolumeNo_of_token:
  assumes "Glob w (genFilename pre [''*'']) = Some (m # ms)"
      and "scanMatches w (m # ms) (Stat w m) m = Inr r"
  shows "calcNextVolumeNo w pre =
           (case findVolToken r of
              None \<Rightarrow> Inl IndexOutOfRange
            | Some tok \<Rightarrow> Inr (min (decimalVal tok) 32767 mod 9999 + 1))"
proof (cases "findVolToken r")
  case None
  with assms show ?thesis by (simp add: calcNextVolumeNo_def)
next
  case (Some tok)
  from parseInt16_range[OF Some] have rng: "0 \<le> parseInt16 tok" "parseInt16 tok \<le> 32767" by simp_all
  have p: "parseInt16 tok = min (decimalVal tok) 32767" by (simp add: parseInt16_def min_def)
  have "0 \<le> parseInt16 tok mod 9999" by simp
  then have nz: "parseInt16 tok mod 9999 + 1 \<noteq> 0" by linarith
  have "calcNextVolumeNo w pre = Inr (parseInt16 tok mod 9999 + 1)"
    using assms Some nz
    by (simp add: calcNextVolumeNo_def Let_def volume_arith[OF rng] del: scanMatches.simps)
  with Some show ?thesis by (simp add: p)
qed

text \<open>
  What the scan computes. When the listing fails or is empty the result is 1. Otherwise,
  if every listed file can be statted, the file the loop ends with is a listed file
  whose modification time no listed file exceeds, and the result comes from the leftmost
  match of the pattern in its name.
\<close>

lemma calcNextVolumeNo_result:
  "(Glob w (genFilename pre [''*'']) = None \<or> Glob w (genFilename pre [''*'']) = Some []
      \<longrightarrow> calcNextVolumeNo w pre = Inr 1)
   \<and> (\<forall>ms. Glob w (genFilename pre [''*'']) = Some ms \<and> ms \<noteq> [] \<and> (\<forall>f \<in> set ms. Stat w f \<noteq> None)
      \<longrightarrow> (\<exists>f \<in> set ms.
             (\<forall>g \<in> set ms. modTime (the (Stat w g)) \<le> modTime (the (Stat w f)))
             \<and> calcNextVolumeNo w pre =
                 (case findVolToken f of
                    None \<Rightarrow> Inl IndexOutOfRange
                  | Some tok \<Rightarrow> Inr (min (decimalVal tok) 32767 mod 9999 + 1))
             \<and> (\<forall>v. calcNextVolumeNo w pre = Inr v \<longrightarrow> 1 \<le> v \<and> v \<le> 9999)))"
proof (intro conjI allI impI)
  assume "Glob w (genFilename pre [''*'']) = None \<or> Glob w (genFilename pre [''*'']) = Some []"
  then show "calcNextVolumeNo w pre = Inr 1"
    by (auto simp: calcNextVolumeNo_def)
next
  fix ms
  assume a: "Glob w (genFilename pre [''*'']) = Some ms \<and> ms \<noteq> [] \<and> (\<forall>f \<in> set ms. Stat w f \<noteq> None)"
  then obtain m rest where ms: "ms = m # rest" by (cases ms) auto
  from a ms have st: "\<forall>f \<in> set (m # rest). Stat w f \<noteq> None" and sm: "Stat w m \<noteq> None" by auto
  from scanMatches_newest[OF st sm] obtain r where
    r: "scanMatches w (m # rest) (Stat w m) m = Inr r" "r \<in> set (m # rest)"
       "\<forall>g \<in> set (m # rest). modTime (the (Stat w g)) \<le> modTime (the (Stat w r))"
    by auto
  from a ms have g: "Glob w (genFilename pre [''*'']) = Some (m # rest)" by simp
  note eq = calcNextVolumeNo_of_token[OF g r(1)]
  have rng: "\<forall>v. calcNextVolumeNo w pre = Inr v \<longrightarrow> 1 \<le> v \<and> v \<le> 9999"
  proof (intro allI impI)
    fix v assume v: "calcNextVolumeNo w pre = Inr v"
    with eq obtain tok where "v = min (decimalVal tok) 32767 mod 9999 + 1"
      by (auto split: option.splits)
    moreover have "0 \<le> min (decimalVal tok) 32767 mod 9999" "min (decimalVal tok) 32767 mod 9999 < 9999"
      by simp_all
    ultimately show "1 \<le> v \<and> v \<le> 9999" by linarith
  qed
  from r(2,3) eq rng ms
  show "\<exists>f \<in> set ms.
             (\<forall>g \<in> set ms. modTime (the (Stat w g)) \<le> modTime (the (Stat w f)))
             \<and> calcNextVolumeNo w pre =
                 (case findVolToken f of
                    None \<Rightarrow> Inl IndexOutOfRange
                  | Some tok \<Rightarrow> Inr (min (decimalVal tok) 32767 mod 9999 + 1))
             \<and> (\<forall>v. calcNextVolumeNo w pre = Inr v \<longrightarrow> 1 \<le> v \<and> v \<le> 9999)"
    by blast
qed


section \<open>Properties of the constructors\<close>

lemma genFilename_one: "genFilename pre [s] = pre @ ''.'' @ s @ ''.log''"
  by (simp add: genFilename_def logFilenameExtension_def)

lemma sprintfVolume_one: "sprintfVolume 1 = ''0001''"
  by code_simp

lemma getStaticFilename_fresh:
  "volNo lf = 0 \<Longrightarrow>
   getStaticFilename w lf = Inr (lf\<lparr>volNo := 1\<rparr>, prefix lf @ ''.0001.log'')"
  by (simp add: getStaticFilename_def Let_def genFilename_one sprintfVolume_one)

text \<open>
  C5 (as amended). A file of policy None gets volume 1 at every construction, the first
  and every later one with the same prefix, whatever files exist: the new struct has
  volume 0, so the name is \<open>prefix.0001.log\<close> and no file is scanned. The
  construction fails only when that path cannot be opened.
\<close>

theorem File_volume_is_one:
  "(openable w (name @ ''.0001.log'') \<longrightarrow>
      (\<exists>w' lf. File w name = Inr (Inr (w', lf)) \<and> policy lf = PolicyNone \<and> volNo lf = 1
         \<and> LogFilename lf = name @ ''.0001.log'' \<and> fileh lf = HOpen (name @ ''.0001.log'')))
   \<and> (\<not> openable w (name @ ''.0001.log'') \<longrightarrow> File w name = Inr (Inl ErrOpen))"
  by (simp add: File_def emptyLogFile_def callFilenameGen_def getStaticFilename_fresh
        openFile_def osOpenFile_def LogFilename_def Let_def)

theorem File_volume_is_one_witness:
  "openable (exWorld exDiskTwo 100) (''p'' @ ''.0001.log'')
   \<and> map_option volNo (openedFile (File (exWorld exDiskTwo 100) ''p'')) = Some 1
   \<and> map_option LogFilename (openedFile (File (exWorld exDiskTwo 100) ''p'')) = Some (''p'' @ ''.0001.log'')"
proof -
  have o: "openable (exWorld exDiskTwo 100) (''p'' @ ''.0001.log'')"
    by (simp add: exWorld_def)
  from File_volume_is_one[of "exWorld exDiskTwo 100" "''p''"] o
  obtain w' lf where "File (exWorld exDiskTwo 100) ''p'' = Inr (Inr (w', lf))"
    and "volNo lf = 1" and "LogFilename lf = ''p'' @ ''.0001.log''" by blast
  with o show ?thesis by (simp add: openedFile_def)
qed

text \<open>
  The claim as stated fails: with \<open>p.0001.log\<close> and the newer \<open>p.0002.log\<close> on disk,
  a scan gives volume 3, and the reconstruction opens volume 1.
\<close>

theorem File_reconstruction_counterexample:
  "Glob (exWorld exDiskTwo 100) (genFilename ''p'' [''*'']) = Some [''p.0001.log'', ''p.0002.log'']
   \<and> calcNextVolumeNo (exWorld exDiskTwo 100) ''p'' = Inr 3
   \<and> map_option volNo (openedFile (File (exWorld exDiskTwo 100) ''p'')) = Some 1
   \<and> map_option LogFilename (openedFile (File (exWorld exDiskTwo 100) ''p'')) = Some ''p.0001.log''"
  by code_simp

lemma openedFile_Some: "openedFile r = Some lf \<Longrightarrow> \<exists>w'. r = Inr (Inr (w', lf))"
  by (auto simp: openedFile_def split: sum.splits)

lemma File_fields:
  "File w name = Inr (Inr (w', lf)) \<Longrightarrow> rotateCheck lf = ReturnFalse \<and> policy lf = PolicyNone \<and> ltimer lf = None"
  by (auto simp: File_def emptyLogFile_def callFilenameGen_def getStaticFilename_fresh
        openFile_def osOpenFile_def Let_def split: if_splits)

lemma DailyFile_fields:
  "DailyFile w name = Inr (Inr (w', lf)) \<Longrightarrow>
     rotateCheck lf = TimedRotateCheck \<and> policy lf = PolicyDaily \<and> cycle lf = 24 * Hour
     \<and> ltimer lf = Some (NewDailyTimer w' (Some Local)) \<and> clock w' = clock w"
  by (auto simp: DailyFile_def emptyLogFile_def callFilenameGen_def getDailyFilename_def
        openFile_def osOpenFile_def Let_def split: if_splits sum.splits option.splits)

lemma TimedFile_fields:
  "TimedFile w name rt = Inr (Inr (w', lf)) \<Longrightarrow>
     rotateCheck lf = TimedRotateCheck \<and> policy lf = PolicyTimeLimit \<and> cycle lf = rt
     \<and> ltimer lf = Some (NewLocalTimer w' rt) \<and> clock w' = clock w"
  by (auto simp: TimedFile_def emptyLogFile_def callFilenameGen_def getTimedFilename_def
        openFile_def osOpenFile_def Let_def split: if_splits sum.splits option.splits)

lemma LogRotateCheck_timer:
  "rotateCheck lf = TimedRotateCheck \<Longrightarrow> ltimer lf = Some lt \<Longrightarrow>
   LogRotateCheck w2 lf = (TriggerTime lt < timeRound (clock w2) Minute)"
  by (simp add: LogRotateCheck_def callRotateCheck_def timedRotateCheck_def)

text \<open>
  C6 (as amended). For a file built by \<open>DailyFile\<close> or \<open>TimedFile\<close>, which has a
  timer, \<open>LogRotateCheck\<close> is true exactly when the current time rounded to the minute
  is strictly after the timer's \<open>TriggerTime\<close>; for a file built by \<open>File\<close> it is
  always false.
\<close>

theorem LogRotateCheck_strictly_after:
  "(DailyFile w name = Inr (Inr (w', lf)) \<or> TimedFile w name rt = Inr (Inr (w', lf)) \<longrightarrow>
      (\<exists>lt. ltimer lf = Some lt
         \<and> (\<forall>w2. LogRotateCheck w2 lf = (TriggerTime lt < timeRound (clock w2) Minute))))
   \<and> (File w name = Inr (Inr (w', lf)) \<longrightarrow> (\<forall>w2. \<not> LogRotateCheck w2 lf))"
proof (intro conjI impI)
  assume "DailyFile w name = Inr (Inr (w', lf)) \<or> TimedFile w name rt = Inr (Inr (w', lf))"
  then obtain lt where "rotateCheck lf = TimedRotateCheck" "ltimer lf = Some lt"
    using DailyFile_fields[of w name w' lf] TimedFile_fields[of w name rt w' lf] by blast
  then show "\<exists>lt. ltimer lf = Some lt
         \<and> (\<forall>w2. LogRotateCheck w2 lf = (TriggerTime lt < timeRound (clock w2) Minute))"
    using LogRotateCheck_timer by blast
next
  assume "File w name = Inr (Inr (w', lf))"
  from File_fields[OF this] show "\<forall>w2. \<not> LogRotateCheck w2 lf"
    by (simp add: LogRotateCheck_def callRotateCheck_def)
qed

theorem LogRotateCheck_strictly_after_witness:
  "openedFile (DailyFile (exWorld exDiskNone 0) ''p'') = Some exDailyFile
   \<and> map_option TriggerTime (ltimer exDailyFile) = Some (24 * Hour)
   \<and> timeRound (clock (exWorld exDiskNone (25 * Hour))) Minute = 25 * Hour
   \<and> LogRotateCheck (exWorld exDiskNone (25 * Hour)) exDailyFile
   \<and> timeRound (clock (exWorld exDiskNone (23 * Hour))) Minute = 23 * Hour
   \<and> \<not> LogRotateCheck (exWorld exDiskNone (23 * Hour)) exDailyFile
   \<and> openedFile (File (exWorld exDiskNone 0) ''p'') = Some exStaticFile
   \<and> \<not> LogRotateCheck (exWorld exDiskNone (25 * Hour)) exStaticFile"
proof -
  have o: "openedFile (DailyFile (exWorld exDiskNone 0) ''p'') = Some exDailyFile"
    by code_simp
  then obtain w' where d: "DailyFile (exWorld exDiskNone 0) ''p'' = Inr (Inr (w', exDailyFile))"
    using openedFile_Some by blast
  have o2: "openedFile (File (exWorld exDiskNone 0) ''p'') = Some exStaticFile"
    by code_simp
  then obtain w'' where f: "File (exWorld exDiskNone 0) ''p'' = Inr (Inr (w'', exStaticFile))"
    using openedFile_Some by blast
  have t: "ltimer exDailyFile = Some \<lparr>lt_base = 0, lt_next = 24 * Hour, lt_d = 24 * Hour, lt_timer = Some (24 * Hour)\<rparr>"
    by (simp add: exDailyFile_def)
  have r1: "timeRound (clock (exWorld exDiskNone (25 * Hour))) Minute = 25 * Hour"
    by code_simp
  have r2: "timeRound (clock (exWorld exDiskNone (23 * Hour))) Minute = 23 * Hour"
    by code_simp
  have h: "(24::int) * Hour < 25 * Hour" "\<not> (24::int) * Hour < 23 * Hour"
    by (simp_all add: Hour_def Minute_def Second_def)
  from LogRotateCheck_strictly_after[of "exWorld exDiskNone 0" "''p''" w' exDailyFile 0] d t
  have a: "\<forall>w2. LogRotateCheck w2 exDailyFile = (24 * Hour < timeRound (clock w2) Minute)"
    by (simp add: TriggerTime_def)
  from LogRotateCheck_strictly_after[of "exWorld exDiskNone 0" "''p''" w'' exStaticFile 0] f
  have b: "\<forall>w2. \<not> LogRotateCheck w2 exStaticFile"
    by blast
  show ?thesis
    using o o2 a b r1 r2 h by (simp add: t TriggerTime_def)
qed

text \<open>
  The claim as stated fails at the trigger time itself: the daily file built at the zero
  time has trigger time 24 h, and at 24 h sharp, which is at the trigger time, the
  check is false.
\<close>

theorem LogRotateCheck_at_trigger_counterexample:
  "openedFile (DailyFile (exWorld exDiskNone 0) ''p'') = Some exDailyFile
   \<and> map_option TriggerTime (ltimer exDailyFile) = Some (24 * Hour)
   \<and> timeRound (clock (exWorld exDiskNone (24 * Hour))) Minute = 24 * Hour
   \<and> \<not> LogRotateCheck (exWorld exDiskNone (24 * Hour)) exDailyFile"
  by code_simp


section \<open>Properties of the timer\<close>

lemma NewDailyTimer_trigger:
  "TriggerTime (NewDailyTimer w loc) = lt_base (NewDailyTimer w loc) + 24 * Hour
   \<and> lt_d (NewDailyTimer w loc) = 24 * Hour"
  by (simp add: NewDailyTimer_def TriggerTime_def Let_def)

lemma NewTimer_trigger:
  "TriggerTime (NewTimer w dur l) = lt_base (NewTimer w dur l) + dur
   \<and> lt_d (NewTimer w dur l) = dur"
  by (simp add: NewTimer_def TriggerTime_def Let_def)

text \<open>
  Right after a successful \<open>DailyFile\<close> or \<open>TimedFile\<close> the trigger time is the base
  plus the cycle, in every zone.
\<close>

lemma TriggerTime_is_base_plus_cycle:
  assumes "DailyFile w name = Inr (Inr (w', lf)) \<or> TimedFile w name rt = Inr (Inr (w', lf))"
  shows "\<exists>lt. ltimer lf = Some lt \<and> TriggerTime lt = lt_base lt + cycle lf \<and> lt_d lt = cycle lf"
  using assms DailyFile_fields[of w name w' lf] TimedFile_fields[of w name rt w' lf]
    NewDailyTimer_trigger[of w' "Some Local"] NewTimer_trigger[of w' rt "Some Local"]
  by (auto simp: NewLocalTimer_def)

text \<open>
  Where the zone makes \<open>time.Date\<close> answer the start of the current minute, the trigger
  time of a new timer is after the current time exactly when the duration is longer
  than the part of the minute that has gone by.
\<close>

lemma NewTimer_trigger_after_now:
  assumes "dateMinute w (case l of None \<Rightarrow> Local | Some l' \<Rightarrow> l') (clock w) = clock w - clock w mod Minute"
  shows "clock w < TriggerTime (NewTimer w dur l) \<longleftrightarrow> clock w mod Minute < dur"
  using assms by (auto simp: NewTimer_def TriggerTime_def Let_def)

text \<open>
  C9. Right after construction the trigger time is to be strictly after the current
  time, as the comment of \<open>TriggerTime\<close> (the time the callback is expected to be
  called) and the test of the trigger time say. \<open>NewTimer\<close> adds the cycle to the
  start of the current minute, not to the current time: the timed file built 30 s into
  a minute with the positive cycle of 10 s has base 0 and trigger time 10 s, the base
  plus one cycle, which is 20 s before the current time, and its rotation check is
  true at once.
\<close>

theorem TriggerTime_before_now_short_cycle:
  "(0::int) < 10 * Second
   \<and> clock (exWorld exDiskNone (30 * Second)) = 30 * Second
   \<and> map_option policy (openedFile (TimedFile (exWorld exDiskNone (30 * Second)) ''p'' (10 * Second)))
       = Some PolicyTimeLimit
   \<and> map_option clock (openedWorld (TimedFile (exWorld exDiskNone (30 * Second)) ''p'' (10 * Second)))
       = Some (30 * Second)
   \<and> map_option lt_base (fileTimer (TimedFile (exWorld exDiskNone (30 * Second)) ''p'' (10 * Second)))
       = Some 0
   \<and> map_option TriggerTime (fileTimer (TimedFile (exWorld exDiskNone (30 * Second)) ''p'' (10 * Second)))
       = Some (0 + 10 * Second)
   \<and> \<not> (30 * Second < 10 * Second)
   \<and> map_option (LogRotateCheck (exWorld exDiskNone (30 * Second)))
        (openedFile (TimedFile (exWorld exDiskNone (30 * Second)) ''p'' (10 * Second))) = Some True"
  by code_simp

lemma doTimerFunc_trigger:
  "cb lt = Inr lt' \<Longrightarrow>
   lt_base (doTimerFunc cb lt) = lt_next lt' \<and> TriggerTime (doTimerFunc cb lt) = lt_base (doTimerFunc cb lt)"
  by (simp add: doTimerFunc_def TriggerTime_def)

lemma Reset_keeps_next: "lt_next (Reset w lt) = lt_next lt \<and> lt_d (Reset w lt) = lt_d lt"
  by (simp add: Reset_def Stop_def)

text \<open>
  C7. After a firing the base is the previous trigger time, and the trigger time is not
  computed again, neither by \<open>doTimerFunc\<close> nor by the \<open>Reset\<close> of the rotation: the
  timed file built 30 s after the zero time with a cycle of five minutes has base 0 and
  trigger time 5 min; when its timer fires at 5 min 30 s the file is rotated, the base
  becomes 5 min, and the trigger time is still 5 min, not 10 min.
\<close>

theorem doTimerFunc_trigger_not_advanced:
  "openedFile (TimedFile (exWorld exDiskNone (30 * Second)) ''p'' (5 * Minute)) = Some exTimedFile
   \<and> ltimer exTimedFile
       = Some \<lparr>lt_base = 0, lt_next = 5 * Minute, lt_d = 5 * Minute,
                 lt_timer = Some (30 * Second + 5 * Minute)\<rparr>
   \<and> fire (exWorld exDiskTimed (30 * Second + 5 * Minute))
        (rotationCallback (exWorld exDiskTimed (30 * Second + 5 * Minute)) exTimedFile)
        \<lparr>lt_base = 0, lt_next = 5 * Minute, lt_d = 5 * Minute, lt_timer = Some (30 * Second + 5 * Minute)\<rparr>
       = Some \<lparr>lt_base = 5 * Minute, lt_next = 5 * Minute, lt_d = 5 * Minute,
                 lt_timer = Some (30 * Second + 10 * Minute)\<rparr>
   \<and> TriggerTime \<lparr>lt_base = 5 * Minute, lt_next = 5 * Minute, lt_d = 5 * Minute,
                    lt_timer = Some (30 * Second + 10 * Minute)\<rparr> = 5 * Minute
   \<and> 5 * Minute \<noteq> 5 * Minute + 5 * Minute"
  by code_simp

section \<open>Properties of the size policy\<close>

lemma int64_id: "- (2 ^ 63) \<le> x \<Longrightarrow> x < 2 ^ 63 \<Longrightarrow> int64 x = x"
  by (simp add: int64_def)

lemma SizeLimitedFile_fields:
  "SizeLimitedFile w name size0 = Inr (Inr (w', lf)) \<Longrightarrow>
     policy lf = PolicyFileSize \<and> rotateCheck lf = SizeRotateCheck
     \<and> fileSizeLimit lf = sizeLimitOf size0 \<and> ltimer lf = None"
  by (auto simp: SizeLimitedFile_def emptyLogFile_def callFilenameGen_def getStaticFilename_fresh
        openFile_def osOpenFile_def Let_def split: if_splits)

lemma sizeRotateCheck_stat_fails:
  "policy lf = PolicyFileSize \<Longrightarrow> rotateCheck lf = SizeRotateCheck \<Longrightarrow>
   Stat w (currentFile lf) = None \<Longrightarrow>
   sizeRotateCheck w lf = Inl LogPanic \<and> \<not> LogRotateCheck w lf"
  by (simp add: sizeRotateCheck_def LogRotateCheck_def callRotateCheck_def)

text \<open>
  C8. For a file of the size policy whose current file can be statted, the rotation
  check is true exactly when the 64-bit sum of the file's size and the high-water mark
  of \<open>2 * 1024 = 2048\<close> bytes is greater than the size limit; for every size whose sum
  fits 64 bits this is \<open>size + 2048 > limit\<close>.
\<close>

theorem sizeRotateCheck_iff:
  assumes "policy lf = PolicyFileSize" and "rotateCheck lf = SizeRotateCheck"
      and "Stat w (currentFile lf) = Some fi"
  shows "logHighWaterMark = 2 * 1024 \<and> logHighWaterMark = 2048
       \<and> sizeRotateCheck w lf = Inr (fileSizeLimit lf < int64 (Size fi + logHighWaterMark))
       \<and> LogRotateCheck w lf = (fileSizeLimit lf < int64 (Size fi + logHighWaterMark))
       \<and> (Size fi + logHighWaterMark < 2 ^ 63 \<longrightarrow>
            LogRotateCheck w lf = (fileSizeLimit lf < Size fi + logHighWaterMark))"
proof -
  have hw: "logHighWaterMark = 2048" by (simp add: logHighWaterMark_def Kbyte_def)
  have s: "sizeRotateCheck w lf = Inr (fileSizeLimit lf < int64 (Size fi + logHighWaterMark))"
    using assms by (simp add: sizeRotateCheck_def)
  then have l: "LogRotateCheck w lf = (fileSizeLimit lf < int64 (Size fi + logHighWaterMark))"
    using assms by (simp add: LogRotateCheck_def callRotateCheck_def)
  have nn: "0 \<le> Size fi" by (simp add: Size_def)
  have "Size fi + logHighWaterMark < 2 ^ 63 \<longrightarrow> int64 (Size fi + logHighWaterMark) = Size fi + logHighWaterMark"
    using nn hw by (auto intro!: int64_id)
  with hw s l show ?thesis by auto
qed

theorem sizeRotateCheck_iff_witness:
  "policy exSizeFile = PolicyFileSize \<and> rotateCheck exSizeFile = SizeRotateCheck
   \<and> map_option Size (Stat (exWorld exDiskFull 100) (currentFile exSizeFile)) = Some 1022000
   \<and> fileSizeLimit exSizeFile = 1024000
   \<and> LogRotateCheck (exWorld exDiskFull 100) exSizeFile
   \<and> map_option Size (Stat (exWorld exDiskOne 100) (currentFile exSizeFile)) = Some 0
   \<and> \<not> LogRotateCheck (exWorld exDiskOne 100) exSizeFile"
proof -
  have p: "policy exSizeFile = PolicyFileSize" "rotateCheck exSizeFile = SizeRotateCheck"
    by (simp_all add: exSizeFile_def)
  have s1: "Stat (exWorld exDiskFull 100) (currentFile exSizeFile)
              = Some \<lparr>content = replicate 1022000 (CHR ''x''), modTime = 10\<rparr>"
    by (simp add: Stat_def exWorld_def exDiskFull_def exSizeFile_def)
  have s2: "Stat (exWorld exDiskOne 100) (currentFile exSizeFile) = Some \<lparr>content = [], modTime = 10\<rparr>"
    by (simp add: Stat_def exWorld_def exDiskOne_def exSizeFile_def)
  have z1: "Size \<lparr>content = replicate 1022000 (CHR ''x''), modTime = 10\<rparr> = 1022000"
    by (simp add: Size_def)
  have z2: "Size \<lparr>content = [], modTime = 10\<rparr> = 0"
    by (simp add: Size_def)
  have l: "fileSizeLimit exSizeFile = 1024000" by (simp add: exSizeFile_def)
  from sizeRotateCheck_iff[OF p s1]
  have a: "LogRotateCheck (exWorld exDiskFull 100) exSizeFile"
    by (simp add: z1 l logHighWaterMark_def Kbyte_def int64_def)
  from sizeRotateCheck_iff[OF p s2]
  have b: "\<not> LogRotateCheck (exWorld exDiskOne 100) exSizeFile"
    by (simp add: z2 l logHighWaterMark_def Kbyte_def int64_def)
  show ?thesis using p a b l by (simp add: s1 s2 z1 z2)
qed

text \<open>
  C4. When the current file of a size-limited file cannot be statted, \<open>sizeRotateCheck\<close>
  panics before it reaches its \<open>return true\<close>, and \<open>LogRotateCheck\<close> recovers the
  panic and answers false: here for the file that \<open>SizeLimitedFile\<close> built, after its
  volume was removed from the disk.
\<close>

theorem LogRotateCheck_stat_failure:
  "openedFile (SizeLimitedFile (exWorld exDiskNone 0) ''p'' (3 * Kbyte)) = Some exSizeFile
   \<and> policy exSizeFile = PolicyFileSize
   \<and> Stat (exWorld exDiskNone 0) (currentFile exSizeFile) = None
   \<and> sizeRotateCheck (exWorld exDiskNone 0) exSizeFile = Inl LogPanic
   \<and> LogRotateCheck (exWorld exDiskNone 0) exSizeFile = False"
  by code_simp

lemma sizeLimitOf_up_to_ceiling:
  assumes "size0 \<le> LogMaxFileSize"
  shows "sizeLimitOf size0 = LogMinFileSize"
proof -
  have m: "max64 size0 LogMaxFileSize = 512000000"
    using assms by (simp add: max64_def LogMaxFileSize_def Mbyte_def Kbyte_def)
  have f1: "float64 512000000 = 512000000" by (rule float64_small) simp_all
  have f2: "float64 LogMinFileSize = 1024000"
    unfolding LogMinFileSize_def Mbyte_def Kbyte_def by (simp add: float64_small)
  show ?thesis
    by (simp add: sizeLimitOf_def m f1 f2 mathMod_def Let_def)
qed

text \<open>
  C1. The size computation takes the larger of the request and the ceiling where the
  smaller was meant: a request of two units and one byte gets one unit, not three, and
  a request of one byte above the ceiling of 500 units gets 501 units.
\<close>

theorem sizeLimitOf_failing_inputs:
  "LogMinFileSize = 1024000 \<and> LogMaxFileSize = 500 * LogMinFileSize
   \<and> sizeLimitOf (2 * LogMinFileSize + 1) = LogMinFileSize
   \<and> sizeLimitOf (2 * LogMinFileSize + 1) \<noteq> 3 * LogMinFileSize
   \<and> sizeLimitOf (LogMaxFileSize + 1) = 501 * LogMinFileSize
   \<and> LogMaxFileSize < sizeLimitOf (LogMaxFileSize + 1)
   \<and> map_option fileSizeLimit (openedFile (SizeLimitedFile (exWorld exDiskNone 0) ''p'' (LogMaxFileSize + 1)))
       = Some (501 * LogMinFileSize)"
  by code_simp

end
